theory Spec2Isabelle
  imports Complex_Main "HOL-Library.AList"
begin

section \<open>Python values\<close>

text \<open>
  The payloads of the odds API are parsed JSON. A Python \<open>int\<close> is an unbounded integer;
  a Python \<open>float\<close> is modelled by the exact rational it denotes, so every quotient below
  is the exact one (binary64 rounding, NaN and the infinities are outside the model).
  A parsed object is an insertion-ordered dictionary with distinct string keys, kept as
  an association list.
\<close>

datatype json =
    JNull
  | JBool bool
  | JInt int
  | JFloat rat
  | JStr string
  | JArr "json list"
  | JObj "(string \<times> json) list"

text \<open>Python's truth value of an object, as tested by \<open>not x\<close> and \<open>if x\<close>.\<close>

fun py_truthy :: "json \<Rightarrow> bool" where
  "py_truthy JNull = False"
| "py_truthy (JBool b) = b"
| "py_truthy (JInt n) = (n \<noteq> 0)"
| "py_truthy (JFloat r) = (r \<noteq> 0)"
| "py_truthy (JStr s) = (s \<noteq> [])"
| "py_truthy (JArr xs) = (xs \<noteq> [])"
| "py_truthy (JObj kvs) = (kvs \<noteq> [])"

text \<open>
  The numeric value of an object in arithmetic and comparisons with a number;
  \<open>bool\<close> is a subclass of \<open>int\<close>. Every other object raises \<open>TypeError\<close> there.
\<close>

fun py_number :: "json \<Rightarrow> rat option" where
  "py_number (JBool b) = Some (if b then 1 else 0)"
| "py_number (JInt n) = Some (of_int n)"
| "py_number (JFloat r) = Some r"
| "py_number _ = None"

text \<open>
  Dictionary keys. Lists and dictionaries are unhashable; numbers and booleans that
  compare equal are the same key (\<open>True == 1 == 1.0\<close>), so a key is kept by its
  numeric value.
\<close>

datatype pykey = KNone | KNum rat | KStr string

fun py_hash_key :: "json \<Rightarrow> pykey option" where
  "py_hash_key JNull = Some KNone"
| "py_hash_key (JStr s) = Some (KStr s)"
| "py_hash_key (JArr xs) = None"
| "py_hash_key (JObj kvs) = None"
| "py_hash_key v = map_option KNum (py_number v)"

text \<open>
  What the fetch layer reads of an HTTP response: its status, the value of
  \<open>headers.get("Retry-After")\<close> and its body (\<open>None\<close> when the body is not JSON).
\<close>

record response =
  status_code :: int
  retry_after :: "string option"
  body :: "json option"

text \<open>
  The exceptions that reach the code. \<open>HTTPError\<close> carries \<open>exc.response\<close>, which may be
  \<open>None\<close>; \<open>RequestException\<close> stands for every other failure of the HTTP library
  (connection, timeout, undecodable body), none of which is an \<open>HTTPError\<close>.
\<close>

datatype py_exn =
    KeyError string
  | TypeError
  | AttributeError
  | HTTPError "response option"
  | RequestException

text \<open>\<open>obj[key]\<close> with a string key: only a dictionary can be subscripted by a string.\<close>

fun py_getitem :: "json \<Rightarrow> string \<Rightarrow> py_exn + json" where
  "py_getitem (JObj kvs) k = (case map_of kvs k of None \<Rightarrow> Inl (KeyError k) | Some v \<Rightarrow> Inr v)"
| "py_getitem _ k = Inl TypeError"

text \<open>\<open>obj.get(key, default)\<close>: only a dictionary has the method.\<close>

fun py_get :: "json \<Rightarrow> string \<Rightarrow> json \<Rightarrow> py_exn + json" where
  "py_get (JObj kvs) k dflt = (case map_of kvs k of None \<Rightarrow> Inr dflt | Some v \<Rightarrow> Inr v)"
| "py_get _ k dflt = Inl AttributeError"

text \<open>
  \<open>for x in obj\<close>: a list yields its elements, a dictionary its keys, a string its
  characters; nothing else is iterable.
\<close>

fun py_iter :: "json \<Rightarrow> py_exn + json list" where
  "py_iter (JArr xs) = Inr xs"
| "py_iter (JObj kvs) = Inr (map (\<lambda>kv. JStr (fst kv)) kvs)"
| "py_iter (JStr s) = Inr (map (\<lambda>c. JStr [c]) s)"
| "py_iter _ = Inl TypeError"

text \<open>Sequencing of two computations that may raise: the first exception propagates.\<close>

definition and_then :: "'e + 'a \<Rightarrow> ('a \<Rightarrow> 'e + 'b) \<Rightarrow> 'e + 'b" where
  "and_then r f = (case r of Inl e \<Rightarrow> Inl e | Inr v \<Rightarrow> f v)"

text \<open>The use of an object as a dictionary key or set element.\<close>

definition hashed :: "json \<Rightarrow> py_exn + pykey" where
  "hashed v = (case py_hash_key v of None \<Rightarrow> Inl TypeError | Some k \<Rightarrow> Inr k)"

text \<open>A \<open>for\<close> loop whose body may raise: the first exception ends the loop.\<close>

fun for_each :: "('a \<Rightarrow> 's \<Rightarrow> 'e + 's) \<Rightarrow> 'a list \<Rightarrow> 's \<Rightarrow> 'e + 's" where
  "for_each step [] s = Inr s"
| "for_each step (x # xs) s = and_then (step x s) (for_each step xs)"

text \<open>
  An insertion-ordered dictionary: \<open>d[k] = v\<close> replaces the value in place when the key is
  there and appends the entry otherwise (\<open>AList.update\<close>); \<open>d.get(k)\<close> is \<open>map_of\<close>.
\<close>

type_synonym ('k, 'v) pydict = "('k \<times> 'v) list"


subsection \<open>Rounding\<close>



section \<open>Implied probability (odds\_fetcher.odds\_to\_probability)\<close>

definition odds_to_probability :: "rat \<Rightarrow> rat" where
  "odds_to_probability odds =
     (if odds > 0 then 100 / (odds + 100) else \<bar>odds\<bar> / (\<bar>odds\<bar> + 100))"

section \<open>Fetch client (odds\_fetcher)\<close>

text \<open>
  The upstream API is an environment: the \<open>n\<close>-th request of a run is answered by
  \<open>server n\<close>, either with a response or with an exception of the HTTP library itself.
  The world records the requests sent (path and markets) and every \<open>time.sleep\<close>.
\<close>

datatype http_outcome = Responded response | Raised py_exn

record world =
  sent :: "(string \<times> string list) list"
  slept :: "rat list"

text \<open>
  \<open>_request\<close>: \<open>raise_for_status\<close> raises \<open>HTTPError\<close> for the statuses 400 to 599;
  otherwise the parsed body is returned.
\<close>

definition request ::
  "(nat \<Rightarrow> http_outcome) \<Rightarrow> string \<Rightarrow> string list \<Rightarrow> world \<Rightarrow> (py_exn + json) \<times> world" where
  "request server path markets w =
     (let w' = w\<lparr>sent := sent w @ [(path, markets)]\<rparr>
      in case server (length (sent w)) of
           Raised e \<Rightarrow> (Inl e, w')
         | Responded r \<Rightarrow>
             if 400 \<le> status_code r \<and> status_code r < 600 then (Inl (HTTPError (Some r)), w')
             else (case body r of None \<Rightarrow> (Inl RequestException, w') | Some payload \<Rightarrow> (Inr payload, w')))"




definition SPORT_KEY_ALIASES :: "(string \<times> string) list" where
  "SPORT_KEY_ALIASES =
     [(''nhl'', ''icehockey_nhl''),
      (''nfl'', ''americanfootball_nfl''),
      (''soccer'', ''soccer_usa_mls''),
      (''nba'', ''basketball_nba''),
      (''mlb'', ''baseball_mlb''),
      (''ufc'', ''mma_mixed_martial_arts'')]"

definition resolve_sport_key :: "string \<Rightarrow> string" where
  "resolve_sport_key sport_key =
     (case map_of SPORT_KEY_ALIASES sport_key of None \<Rightarrow> sport_key | Some sport \<Rightarrow> sport)"

definition fetch_upcoming_games ::
  "(nat \<Rightarrow> http_outcome) \<Rightarrow> string \<Rightarrow> world \<Rightarrow> (py_exn + json) \<times> world" where
  "fetch_upcoming_games server sport_key w =
     request server (''/sports/'' @ resolve_sport_key sport_key @ ''/odds'') [''h2h''] w"


section \<open>Normaliser (odds\_fetcher)\<close>

text \<open>
  A price as the normaliser stores it, \<open>{"odds": .., "implied_prob": ..}\<close>. The price of the
  payload is kept by its numeric value.
\<close>

record price =
  odds :: rat
  implied_prob :: rat

type_synonym books_dict = "(pykey, (pykey, price) pydict) pydict"

record game_data =
  game_id :: json
  home_team :: json
  away_team :: json
  commence_time :: json
  books :: books_dict

text \<open>
  \<open>odds_to_probability(odds)\<close> on an object of the payload: the comparison \<open>odds > 0\<close>
  raises \<open>TypeError\<close> unless it is a number.
\<close>

definition price_of :: "json \<Rightarrow> py_exn + price" where
  "price_of v =
     (case py_number v of
        None \<Rightarrow> Inl TypeError
      | Some x \<Rightarrow> Inr \<lparr> odds = x, implied_prob = odds_to_probability x \<rparr>)"

subsection \<open>normalize\_moneyline\_odds\<close>

text \<open>The body of \<open>for outcome in market.get("outcomes", [])\<close>.\<close>

definition h2h_outcome_step :: "json \<Rightarrow> (pykey, price) pydict \<Rightarrow> py_exn + (pykey, price) pydict" where
  "h2h_outcome_step outcome teams =
     and_then (py_get outcome ''name'' JNull) (\<lambda>team.
     and_then (py_get outcome ''price'' JNull) (\<lambda>price_val.
     if team = JNull \<or> price_val = JNull then Inr teams
     else
       and_then (price_of price_val) (\<lambda>p.
       and_then (hashed team) (\<lambda>k.
       Inr (AList.update k p teams)))))"

text \<open>\<open>next((m for m in markets if m.get("key") == "h2h"), None)\<close>: the generator is lazy.\<close>

fun first_h2h_market :: "json list \<Rightarrow> py_exn + json option" where
  "first_h2h_market [] = Inr None"
| "first_h2h_market (m # ms) =
     and_then (py_get m ''key'' JNull) (\<lambda>k.
     if k = JStr ''h2h'' then Inr (Some m) else first_h2h_market ms)"

text \<open>\<open>bookmaker.get("title", bookmaker.get("key"))\<close>: the default is evaluated first.\<close>

definition bookmaker_name :: "json \<Rightarrow> py_exn + json" where
  "bookmaker_name bookmaker =
     and_then (py_get bookmaker ''key'' JNull) (\<lambda>dflt. py_get bookmaker ''title'' dflt)"

text \<open>\<open>for x in obj.get(key, [])\<close>: the elements the loop will visit.\<close>

definition get_items :: "json \<Rightarrow> string \<Rightarrow> py_exn + json list" where
  "get_items obj k = and_then (py_get obj k (JArr [])) py_iter"

text \<open>The body of \<open>for bookmaker in game.get("bookmakers", [])\<close>.\<close>

definition h2h_bookmaker_step :: "json \<Rightarrow> books_dict \<Rightarrow> py_exn + books_dict" where
  "h2h_bookmaker_step bookmaker game_books =
     and_then (bookmaker_name bookmaker) (\<lambda>book_name.
     if \<not> py_truthy book_name then Inr game_books
     else
       and_then (get_items bookmaker ''markets'') (\<lambda>ms.
       and_then (first_h2h_market ms) (\<lambda>found.
       case found of
         None \<Rightarrow> Inr game_books
       | Some market \<Rightarrow>
           and_then (get_items market ''outcomes'') (\<lambda>outcomes.
           and_then (for_each h2h_outcome_step outcomes []) (\<lambda>teams.
           if teams = [] then Inr game_books
           else and_then (hashed book_name) (\<lambda>b. Inr (AList.update b teams game_books)))))))"

text \<open>The body of \<open>for game in raw_games\<close>.\<close>

definition normalize_game ::
  "json \<Rightarrow> (pykey, game_data) pydict \<Rightarrow> py_exn + (pykey, game_data) pydict" where
  "normalize_game game normalized =
     and_then (py_getitem game ''id'') (\<lambda>gid.
     and_then (py_getitem game ''home_team'') (\<lambda>home.
     and_then (py_getitem game ''away_team'') (\<lambda>away.
     and_then (py_get game ''commence_time'' JNull) (\<lambda>commence.
     and_then (get_items game ''bookmakers'') (\<lambda>bookmakers.
     and_then (for_each h2h_bookmaker_step bookmakers []) (\<lambda>game_books.
     and_then (hashed gid) (\<lambda>k.
     Inr (AList.update k
            \<lparr> game_id = gid, home_team = home, away_team = away,
              commence_time = commence, books = game_books \<rparr> normalized))))))))"

definition normalize_moneyline_odds :: "json \<Rightarrow> py_exn + (pykey, game_data) pydict" where
  "normalize_moneyline_odds raw_games =
     and_then (py_iter raw_games) (\<lambda>games. for_each normalize_game games [])"

subsection \<open>normalize\_prop\_odds\<close>








section \<open>Arbitrage engine (arbitrage\_engine)\<close>

text \<open>
  A best-price selection, \<open>{"book": .., "odds": .., "implied_prob": ..}\<close>, and the result
  of the two-way evaluation. Neither dictionary is ever empty, so \<open>not side\<close> holds for
  \<open>None\<close> only.
\<close>

record side =
  side_book :: pykey
  side_odds :: rat
  side_implied_prob :: rat



text \<open>\<open>if best is None or odds > best["odds"]: best = {...}\<close>\<close>

definition better_price :: "pykey \<Rightarrow> price \<Rightarrow> side option \<Rightarrow> side option" where
  "better_price book_name p best =
     (if (case best of None \<Rightarrow> True | Some b \<Rightarrow> odds p > side_odds b)
      then Some \<lparr> side_book = book_name, side_odds = odds p, side_implied_prob = implied_prob p \<rparr>
      else best)"

text \<open>
  The loop body of \<open>_best_price_for_team\<close>; \<open>teams.get(team_name)\<close> raises \<open>TypeError\<close> on
  an unhashable team name.
\<close>

fun best_price_step :: "json \<Rightarrow> pykey \<times> (pykey, price) pydict \<Rightarrow> side option \<Rightarrow> py_exn + side option" where
  "best_price_step team_name (book_name, teams) best =
     and_then (hashed team_name) (\<lambda>k.
     case map_of teams k of
       None \<Rightarrow> Inr best
     | Some team_data \<Rightarrow> Inr (better_price book_name team_data best))"

definition best_price_for_team :: "game_data \<Rightarrow> json \<Rightarrow> py_exn + side option" where
  "best_price_for_team game team_name = for_each (best_price_step team_name) (books game) None"

text \<open>The loop body of \<open>_best_prop_side\<close>; the side name is a string.\<close>

fun best_prop_step :: "string \<Rightarrow> pykey \<times> (pykey, price) pydict \<Rightarrow> side option \<Rightarrow> side option" where
  "best_prop_step side_name (book_name, sides) best =
     (case map_of sides (KStr side_name) of
        None \<Rightarrow> best
      | Some side_data \<Rightarrow> better_price book_name side_data best)"

definition best_prop_side :: "books_dict \<Rightarrow> string \<Rightarrow> side option" where
  "best_prop_side books_data side_name = fold (best_prop_step side_name) books_data None"








section \<open>Vocabulary of the properties\<close>

text \<open>
  The prices that the books of a dictionary offer for one team or side, in iteration
  order, each with the name of its book.
\<close>

definition offers :: "pykey \<Rightarrow> books_dict \<Rightarrow> (pykey \<times> price) list" where
  "offers k books_data =
     List.map_filter (\<lambda>(book_name, prices). map_option (Pair book_name) (map_of prices k)) books_data"

text \<open>
  A selection is the best price of a list of offers: absent exactly when nothing is
  offered; otherwise it is the offer at some position, no offer has greater odds, and
  every earlier offer has smaller odds.
\<close>

definition selects :: "(pykey \<times> price) list \<Rightarrow> side option \<Rightarrow> bool" where
  "selects os r \<longleftrightarrow>
     (r = None \<longleftrightarrow> os = []) \<and>
     (\<forall>s. r = Some s \<longrightarrow>
        (\<exists>i<length os.
           os ! i = (side_book s, \<lparr> odds = side_odds s, implied_prob = side_implied_prob s \<rparr>) \<and>
           (\<forall>j<length os. odds (snd (os ! j)) \<le> side_odds s) \<and>
           (\<forall>j<i. odds (snd (os ! j)) < side_odds s)))"

text \<open>American odds have magnitude at least 100.\<close>

definition american_odds :: "rat \<Rightarrow> bool" where
  "american_odds x \<longleftrightarrow> x \<le> - 100 \<or> 100 \<le> x"




text \<open>
  A payload with one field of an object replaced, to compare the normalisation of a
  payload with that of the payload without one of its records.
\<close>

fun set_field :: "string \<Rightarrow> json \<Rightarrow> json \<Rightarrow> json" where
  "set_field k v (JObj kvs) = JObj (AList.update k v kvs)"
| "set_field k v obj = obj"

fun is_obj :: "json \<Rightarrow> bool" where
  "is_obj (JObj kvs) = True"
| "is_obj _ = False"





text \<open>
  The teams that the bookmaker loop of the moneyline normaliser reads from a list of
  markets: those of the first \<open>h2h\<close> market, if there is one.
\<close>

definition h2h_teams :: "json list \<Rightarrow> py_exn + (pykey, price) pydict option" where
  "h2h_teams ms =
     and_then (first_h2h_market ms) (\<lambda>found.
     case found of
       None \<Rightarrow> Inr None
     | Some market \<Rightarrow>
         and_then (get_items market ''outcomes'') (\<lambda>outcomes.
         and_then (for_each h2h_outcome_step outcomes []) (\<lambda>teams. Inr (Some teams))))"

text \<open>
  The key under which the moneyline normaliser stores a game, and the games that lack
  one of the fields it subscripts.
\<close>

definition game_id_key :: "json \<Rightarrow> pykey option" where
  "game_id_key game = (case py_getitem game ''id'' of Inl e \<Rightarrow> None | Inr gid \<Rightarrow> py_hash_key gid)"

definition lacks_required_field :: "json \<Rightarrow> bool" where
  "lacks_required_field game \<longleftrightarrow>
     py_getitem game ''id'' = Inl (KeyError ''id'') \<or>
     py_getitem game ''home_team'' = Inl (KeyError ''home_team'') \<or>
     py_getitem game ''away_team'' = Inl (KeyError ''away_team'')"

text \<open>
  Well-typed nested data: the lists the loops iterate are lists (or absent) of objects;
  in the outcomes of an \<open>h2h\<close> market a price is a number or null and a team name is
  hashable or null; the name of a named bookmaker is hashable; the game id is hashable.
\<close>

definition items_well_typed :: "(json \<Rightarrow> bool) \<Rightarrow> json \<Rightarrow> string \<Rightarrow> bool" where
  "items_well_typed P obj k \<longleftrightarrow>
     (case py_get obj k (JArr []) of Inr (JArr xs) \<Rightarrow> list_all P xs | _ \<Rightarrow> False)"

definition outcome_well_typed :: "json \<Rightarrow> bool" where
  "outcome_well_typed outcome \<longleftrightarrow>
     (case (py_get outcome ''name'' JNull, py_get outcome ''price'' JNull) of
        (Inr team, Inr price_val) \<Rightarrow>
          team = JNull \<or> price_val = JNull \<or>
          (py_number price_val \<noteq> None \<and> py_hash_key team \<noteq> None)
      | _ \<Rightarrow> False)"

definition market_well_typed :: "json \<Rightarrow> bool" where
  "market_well_typed market \<longleftrightarrow>
     (case py_get market ''key'' JNull of
        Inr k \<Rightarrow> k = JStr ''h2h'' \<longrightarrow> items_well_typed outcome_well_typed market ''outcomes''
      | Inl e \<Rightarrow> False)"

definition bookmaker_well_typed :: "json \<Rightarrow> bool" where
  "bookmaker_well_typed bookmaker \<longleftrightarrow>
     (case bookmaker_name bookmaker of
        Inr book_name \<Rightarrow>
          \<not> py_truthy book_name \<or>
          (py_hash_key book_name \<noteq> None \<and> items_well_typed market_well_typed bookmaker ''markets'')
      | Inl e \<Rightarrow> False)"

definition game_well_typed :: "json \<Rightarrow> bool" where
  "game_well_typed game \<longleftrightarrow>
     game_id_key game \<noteq> None \<and> \<not> lacks_required_field game \<and>
     items_well_typed bookmaker_well_typed game ''bookmakers''"

section \<open>Sample payloads\<close>

text \<open>Builders for the payloads at which the properties below are evaluated.\<close>

definition sample_outcome :: "string \<Rightarrow> json \<Rightarrow> json" where
  "sample_outcome team price_val = JObj [(''name'', JStr team), (''price'', price_val)]"


definition sample_market :: "string \<Rightarrow> json list \<Rightarrow> json" where
  "sample_market k outcomes = JObj [(''key'', JStr k), (''outcomes'', JArr outcomes)]"

definition sample_bookmaker :: "string \<Rightarrow> json list \<Rightarrow> json" where
  "sample_bookmaker title markets = JObj [(''title'', JStr title), (''markets'', JArr markets)]"

definition sample_game :: "string \<Rightarrow> json \<Rightarrow> json" where
  "sample_game gid bookmakers =
     JObj [(''id'', JStr gid), (''home_team'', JStr ''X''), (''away_team'', JStr ''Y''),
           (''bookmakers'', bookmakers)]"



section \<open>Properties\<close>




lemma and_then_simps [simp]:
  "and_then (Inl e) f = Inl e" "and_then (Inr v) f = f v"
  by (simp_all add: and_then_def)

subsection \<open>Two-way arbitrage evaluation\<close>




subsection \<open>Implied probability\<close>



subsection \<open>Best-price selection\<close>

lemma hashed_Some [simp]: "py_hash_key v = Some k \<Longrightarrow> hashed v = Inr k"
  by (simp add: hashed_def)

lemma hashed_None [simp]: "py_hash_key v = None \<Longrightarrow> hashed v = Inl TypeError"
  by (simp add: hashed_def)

lemma best_prop_fold_offers:
  "fold (best_prop_step sn) bd best = fold (\<lambda>(b, p). better_price b p) (offers (KStr sn) bd) best"
proof (induction bd arbitrary: best)
  case Nil
  show ?case by (simp add: offers_def)
next
  case (Cons x bd)
  obtain b d where x: "x = (b, d)" by (cases x)
  show ?case
    using Cons.IH by (cases "map_of d (KStr sn)") (simp_all add: x offers_def)
qed

lemma best_price_for_each_offers:
  assumes "py_hash_key tn = Some k"
  shows "for_each (best_price_step tn) bd best = Inr (fold (\<lambda>(b, p). better_price b p) (offers k bd) best)"
proof (induction bd arbitrary: best)
  case Nil
  show ?case by (simp add: offers_def)
next
  case (Cons x bd)
  obtain b d where x: "x = (b, d)" by (cases x)
  show ?case
    using Cons.IH assms by (cases "map_of d k") (simp_all add: x offers_def)
qed

lemma selects_snoc:
  assumes "selects os r"
  shows "selects (os @ [(b, p)]) (better_price b p r)"
proof (cases r)
  case None
  with assms have "os = []" by (simp add: selects_def)
  then show ?thesis by (simp add: None selects_def better_price_def)
next
  case (Some s)
  with assms obtain i where i: "i < length os"
    "os ! i = (side_book s, \<lparr> odds = side_odds s, implied_prob = side_implied_prob s \<rparr>)"
    "\<forall>j<length os. odds (snd (os ! j)) \<le> side_odds s"
    "\<forall>j<i. odds (snd (os ! j)) < side_odds s"
    by (auto simp: selects_def)
  show ?thesis
  proof (cases "odds p > side_odds s")
    case True
    define t where "t = \<lparr> side_book = b, side_odds = odds p, side_implied_prob = implied_prob p \<rparr>"
    have r: "better_price b p r = Some t"
      using True by (simp add: Some better_price_def t_def)
    have "\<forall>j<length os. odds (snd ((os @ [(b, p)]) ! j)) < side_odds t"
      using i(3) True by (auto simp: nth_append t_def)
    moreover have "(os @ [(b, p)]) ! length os =
        (side_book t, \<lparr> odds = side_odds t, implied_prob = side_implied_prob t \<rparr>)"
      by (simp add: t_def)
    moreover have "\<forall>j<length (os @ [(b, p)]). odds (snd ((os @ [(b, p)]) ! j)) \<le> side_odds t"
      using calculation(1) by (auto simp: less_Suc_eq t_def nth_append)
    ultimately have "\<exists>i<length (os @ [(b, p)]).
        (os @ [(b, p)]) ! i = (side_book t, \<lparr> odds = side_odds t, implied_prob = side_implied_prob t \<rparr>) \<and>
        (\<forall>j<length (os @ [(b, p)]). odds (snd ((os @ [(b, p)]) ! j)) \<le> side_odds t) \<and>
        (\<forall>j<i. odds (snd ((os @ [(b, p)]) ! j)) < side_odds t)"
      by (intro exI[of _ "length os"]) simp
    then show ?thesis unfolding r selects_def by simp
  next
    case False
    have r: "better_price b p r = Some s"
      using False by (simp add: Some better_price_def)
    have "\<forall>j<length (os @ [(b, p)]). odds (snd ((os @ [(b, p)]) ! j)) \<le> side_odds s"
      using i(3) False by (auto simp: nth_append less_Suc_eq)
    moreover have "\<forall>j<i. odds (snd ((os @ [(b, p)]) ! j)) < side_odds s"
      using i(1,4) by (auto simp: nth_append)
    moreover have "(os @ [(b, p)]) ! i =
        (side_book s, \<lparr> odds = side_odds s, implied_prob = side_implied_prob s \<rparr>)"
      using i(1,2) by (simp add: nth_append)
    moreover have "i < length (os @ [(b, p)])" using i(1) by simp
    ultimately have "\<exists>i<length (os @ [(b, p)]).
        (os @ [(b, p)]) ! i = (side_book s, \<lparr> odds = side_odds s, implied_prob = side_implied_prob s \<rparr>) \<and>
        (\<forall>j<length (os @ [(b, p)]). odds (snd ((os @ [(b, p)]) ! j)) \<le> side_odds s) \<and>
        (\<forall>j<i. odds (snd ((os @ [(b, p)]) ! j)) < side_odds s)"
      by blast
    then show ?thesis unfolding r selects_def by simp
  qed
qed

lemma selects_fold: "selects os (fold (\<lambda>(b, p). better_price b p) os None)"
proof (induction os rule: rev_induct)
  case Nil
  show ?case by (simp add: selects_def)
next
  case (snoc x os)
  obtain b p where x: "x = (b, p)" by (cases x)
  show ?case using selects_snoc [OF snoc.IH, of b p] by (simp add: x)
qed

lemma otp_order_pos:
  assumes "0 < b" "b < a"
  shows "odds_to_probability a \<le> odds_to_probability b"
  using assms by (simp add: odds_to_probability_def frac_le)

lemma otp_order_neg:
  assumes "a < 0" "b < a"
  shows "odds_to_probability a \<le> odds_to_probability b"
proof -
  have "\<bar>a\<bar> / (\<bar>a\<bar> + 100) \<le> \<bar>b\<bar> / (\<bar>b\<bar> + 100)"
    using assms by (simp add: field_simps)
  then show ?thesis using assms by (simp add: odds_to_probability_def)
qed

lemma otp_order_mixed:
  assumes "0 < a" "b < 0"
  shows "odds_to_probability a \<le> odds_to_probability b \<longleftrightarrow> 10000 \<le> a * (- b)"
proof -
  have "100 / (a + 100) \<le> (- b) / ((- b) + 100) \<longleftrightarrow> 10000 \<le> a * (- b)"
    using assms by (simp add: field_simps)
  then show ?thesis using assms by (simp add: odds_to_probability_def)
qed

lemma otp_order_iff:
  assumes "a \<noteq> 0" "b \<noteq> 0" "b < a"
  shows "odds_to_probability a \<le> odds_to_probability b \<longleftrightarrow> 0 < b \<or> a < 0 \<or> 10000 \<le> a * (- b)"
proof -
  consider "0 < b" | "a < 0" | "0 < a" "b < 0" using assms by linarith
  then show ?thesis
  proof cases
    case 1 then show ?thesis using otp_order_pos assms by simp
  next
    case 2 then show ?thesis using otp_order_neg assms by simp
  next
    case 3 then show ?thesis using otp_order_mixed [of a b] by auto
  qed
qed

lemma otp_order_american:
  assumes "american_odds a" "american_odds b" "b \<le> a"
  shows "odds_to_probability a \<le> odds_to_probability b"
proof (cases "a = b")
  case True then show ?thesis by simp
next
  case False
  then have lt: "b < a" using assms by simp
  have nz: "a \<noteq> 0" "b \<noteq> 0" using assms by (auto simp: american_odds_def)
  have "0 < b \<or> a < 0 \<or> 10000 \<le> a * (- b)"
  proof (cases "0 < b \<or> a < 0")
    case True then show ?thesis by blast
  next
    case False
    then have "100 \<le> a" "100 \<le> - b" using assms nz by (auto simp: american_odds_def)
    then have "100 * 100 \<le> a * (- b)" by (intro mult_mono) simp_all
    then show ?thesis by simp
  qed
  then show ?thesis using otp_order_iff [OF nz lt] by simp
qed

lemma selects_min_implied_prob:
  assumes "selects os (Some s)"
    and "\<forall>(bk, p) \<in> set os. american_odds (odds p) \<and> implied_prob p = odds_to_probability (odds p)"
    and "(bk, p) \<in> set os"
  shows "side_implied_prob s \<le> implied_prob p"
proof -
  from assms(1) obtain i where i: "i < length os"
    "os ! i = (side_book s, \<lparr> odds = side_odds s, implied_prob = side_implied_prob s \<rparr>)"
    "\<forall>j<length os. odds (snd (os ! j)) \<le> side_odds s"
    by (auto simp: selects_def)
  from i(1,2) have mem: "(side_book s, \<lparr> odds = side_odds s, implied_prob = side_implied_prob s \<rparr>) \<in> set os"
    by (metis nth_mem)
  with assms(2) have s: "american_odds (side_odds s)" "side_implied_prob s = odds_to_probability (side_odds s)"
    by auto
  from assms(3) obtain j where j: "j < length os" "os ! j = (bk, p)" by (auto simp: in_set_conv_nth)
  with i(3) have le: "odds p \<le> side_odds s" by force
  from assms(2,3) have p: "american_odds (odds p)" "implied_prob p = odds_to_probability (odds p)" by auto
  show ?thesis using otp_order_american [OF s(1) p(1) le] s(2) p(2) by simp
qed


lemma best_prop_side_selects:
  "selects (offers (KStr side_name) books_data) (best_prop_side books_data side_name)"
  by (simp add: best_prop_side_def best_prop_fold_offers selects_fold)

lemma best_price_for_team_selects:
  assumes "py_hash_key team_name = Some k"
  shows "\<exists>r. best_price_for_team game team_name = Inr r \<and> selects (offers k (books game)) r"
  by (simp add: best_price_for_team_def best_price_for_each_offers [OF assms] selects_fold)

text \<open>
  Claim C3. Best-price selection, for a moneyline team and for a prop side alike, returns
  nothing exactly when no book offers the team or side; otherwise it returns the book,
  odds and implied probability of an offer with the greatest odds, and among offers with
  equal greatest odds the one met first in iteration order.
\<close>

theorem best_price_selection:
  "selects (offers (KStr side_name) books_data) (best_prop_side books_data side_name) \<and>
   (\<forall>k. py_hash_key team_name = Some k \<longrightarrow>
      (\<exists>r. best_price_for_team game team_name = Inr r \<and> selects (offers k (books game)) r))"
  using best_prop_side_selects best_price_for_team_selects by blast

lemma offers_example:
  "offers (KStr ''X'')
     [(KStr ''A'', [(KStr ''X'', \<lparr> odds = 120, implied_prob = 5 / 11 \<rparr>)]),
      (KStr ''B'', [(KStr ''Y'', \<lparr> odds = 500, implied_prob = 1 / 6 \<rparr>)]),
      (KStr ''C'', [(KStr ''X'', \<lparr> odds = 150, implied_prob = 2 / 5 \<rparr>)]),
      (KStr ''D'', [(KStr ''X'', \<lparr> odds = 150, implied_prob = 2 / 5 \<rparr>)])] =
   [(KStr ''A'', \<lparr> odds = 120, implied_prob = 5 / 11 \<rparr>),
    (KStr ''C'', \<lparr> odds = 150, implied_prob = 2 / 5 \<rparr>),
    (KStr ''D'', \<lparr> odds = 150, implied_prob = 2 / 5 \<rparr>)]"
  by (simp add: offers_def)

theorem best_price_selection_witness:
  "selects
     [(KStr ''A'', \<lparr> odds = 120, implied_prob = 5 / 11 \<rparr>),
      (KStr ''C'', \<lparr> odds = 150, implied_prob = 2 / 5 \<rparr>),
      (KStr ''D'', \<lparr> odds = 150, implied_prob = 2 / 5 \<rparr>)]
     (Some \<lparr> side_book = KStr ''C'', side_odds = 150, side_implied_prob = 2 / 5 \<rparr>) \<and>
   (\<exists>r. best_price_for_team
          \<lparr> game_id = JStr ''g'', home_team = JStr ''X'', away_team = JStr ''Y'',
            commence_time = JNull,
            books = [(KStr ''A'', [(KStr ''X'', \<lparr> odds = 120, implied_prob = 5 / 11 \<rparr>)]),
                     (KStr ''B'', [(KStr ''Y'', \<lparr> odds = 500, implied_prob = 1 / 6 \<rparr>)]),
                     (KStr ''C'', [(KStr ''X'', \<lparr> odds = 150, implied_prob = 2 / 5 \<rparr>)]),
                     (KStr ''D'', [(KStr ''X'', \<lparr> odds = 150, implied_prob = 2 / 5 \<rparr>)])] \<rparr>
          (JStr ''X'') = Inr r \<and>
        selects
          [(KStr ''A'', \<lparr> odds = 120, implied_prob = 5 / 11 \<rparr>),
           (KStr ''C'', \<lparr> odds = 150, implied_prob = 2 / 5 \<rparr>),
           (KStr ''D'', \<lparr> odds = 150, implied_prob = 2 / 5 \<rparr>)] r)"
  using best_price_selection
    [of "''X''"
        "[(KStr ''A'', [(KStr ''X'', \<lparr> odds = 120, implied_prob = 5 / 11 \<rparr>)]),
          (KStr ''B'', [(KStr ''Y'', \<lparr> odds = 500, implied_prob = 1 / 6 \<rparr>)]),
          (KStr ''C'', [(KStr ''X'', \<lparr> odds = 150, implied_prob = 2 / 5 \<rparr>)]),
          (KStr ''D'', [(KStr ''X'', \<lparr> odds = 150, implied_prob = 2 / 5 \<rparr>)])]"
        "JStr ''X''"
        "\<lparr> game_id = JStr ''g'', home_team = JStr ''X'', away_team = JStr ''Y'',
            commence_time = JNull,
            books = [(KStr ''A'', [(KStr ''X'', \<lparr> odds = 120, implied_prob = 5 / 11 \<rparr>)]),
                     (KStr ''B'', [(KStr ''Y'', \<lparr> odds = 500, implied_prob = 1 / 6 \<rparr>)]),
                     (KStr ''C'', [(KStr ''X'', \<lparr> odds = 150, implied_prob = 2 / 5 \<rparr>)]),
                     (KStr ''D'', [(KStr ''X'', \<lparr> odds = 150, implied_prob = 2 / 5 \<rparr>)])] \<rparr>"]
  by (simp add: offers_example best_prop_side_def better_price_def)

text \<open>
  The claim C4 as stated fails between -100 and 100: +100 is greater than -50, yet its
  implied probability 1/2 exceeds 1/3, and the selection takes the +100 price.
\<close>

theorem max_odds_claim_counterexample:
  "(100 :: rat) \<noteq> 0 \<and> (- 50 :: rat) \<noteq> 0 \<and> (100 :: rat) > - 50 \<and>
   \<not> odds_to_probability 100 \<le> odds_to_probability (- 50) \<and>
   best_prop_side
     [(KStr ''A'', [(KStr ''Over'', \<lparr> odds = - 50, implied_prob = odds_to_probability (- 50) \<rparr>)]),
      (KStr ''B'', [(KStr ''Over'', \<lparr> odds = 100, implied_prob = odds_to_probability 100 \<rparr>)])]
     ''Over'' = Some \<lparr> side_book = KStr ''B'', side_odds = 100, side_implied_prob = 1 / 2 \<rparr> \<and>
   odds_to_probability (- 50) = 1 / 3"
  by (simp add: odds_to_probability_def best_prop_side_def better_price_def)

text \<open>
  Claim C4, amended. For nonzero odds \<open>a > b\<close> the implied probability of \<open>a\<close> is at most
  that of \<open>b\<close> exactly when both have the same sign or \<open>a * abs(b) >= 10000\<close>; this holds
  whenever both are American odds (magnitude at least 100). When every offered price is
  American and carries the implied probability of its odds, best-price selection returns
  a price whose implied probability is minimal among the offers.
\<close>

theorem max_odds_minimal_probability:
  "(a \<noteq> 0 \<and> b \<noteq> 0 \<and> b < a \<longrightarrow>
      (odds_to_probability a \<le> odds_to_probability b \<longleftrightarrow> 0 < b \<or> a < 0 \<or> 10000 \<le> a * (- b))) \<and>
   (american_odds a \<and> american_odds b \<and> b < a \<longrightarrow> odds_to_probability a \<le> odds_to_probability b) \<and>
   (\<forall>s. (\<forall>(bk, p) \<in> set (offers (KStr side_name) books_data).
            american_odds (odds p) \<and> implied_prob p = odds_to_probability (odds p)) \<and>
        best_prop_side books_data side_name = Some s \<longrightarrow>
        (\<forall>(bk, p) \<in> set (offers (KStr side_name) books_data). side_implied_prob s \<le> implied_prob p)) \<and>
   (\<forall>k s. py_hash_key team_name = Some k \<and>
        (\<forall>(bk, p) \<in> set (offers k (books game)).
            american_odds (odds p) \<and> implied_prob p = odds_to_probability (odds p)) \<and>
        best_price_for_team game team_name = Inr (Some s) \<longrightarrow>
        (\<forall>(bk, p) \<in> set (offers k (books game)). side_implied_prob s \<le> implied_prob p))"
proof (intro conjI allI impI)
  assume "a \<noteq> 0 \<and> b \<noteq> 0 \<and> b < a"
  then show "odds_to_probability a \<le> odds_to_probability b \<longleftrightarrow> 0 < b \<or> a < 0 \<or> 10000 \<le> a * (- b)"
    using otp_order_iff by blast
next
  assume "american_odds a \<and> american_odds b \<and> b < a"
  then show "odds_to_probability a \<le> odds_to_probability b"
    using otp_order_american [of a b] by simp
next
  fix s
  assume h: "(\<forall>(bk, p) \<in> set (offers (KStr side_name) books_data).
            american_odds (odds p) \<and> implied_prob p = odds_to_probability (odds p)) \<and>
        best_prop_side books_data side_name = Some s"
  then have "selects (offers (KStr side_name) books_data) (Some s)"
    using best_prop_side_selects [of side_name books_data] by simp
  then show "\<forall>(bk, p) \<in> set (offers (KStr side_name) books_data). side_implied_prob s \<le> implied_prob p"
    using selects_min_implied_prob h by blast
next
  fix k s
  assume h: "py_hash_key team_name = Some k \<and>
        (\<forall>(bk, p) \<in> set (offers k (books game)).
            american_odds (odds p) \<and> implied_prob p = odds_to_probability (odds p)) \<and>
        best_price_for_team game team_name = Inr (Some s)"
  then have "selects (offers k (books game)) (Some s)"
    using best_price_for_team_selects [of team_name k game] by auto
  then show "\<forall>(bk, p) \<in> set (offers k (books game)). side_implied_prob s \<le> implied_prob p"
    using selects_min_implied_prob h by blast
qed

theorem max_odds_minimal_probability_witness:
  "odds_to_probability 150 \<le> odds_to_probability (- 150) \<and>
   best_prop_side
     [(KStr ''A'', [(KStr ''Over'', \<lparr> odds = - 110, implied_prob = 11 / 21 \<rparr>)]),
      (KStr ''B'', [(KStr ''Over'', \<lparr> odds = 120, implied_prob = 5 / 11 \<rparr>)])] ''Over'' =
     Some \<lparr> side_book = KStr ''B'', side_odds = 120, side_implied_prob = 5 / 11 \<rparr> \<and>
   side_implied_prob \<lparr> side_book = KStr ''B'', side_odds = 120, side_implied_prob = 5 / 11 \<rparr>
     \<le> implied_prob \<lparr> odds = - 110, implied_prob = 11 / 21 \<rparr>"
  using max_odds_minimal_probability
    [of 150 "- 150" "''Over''"
        "[(KStr ''A'', [(KStr ''Over'', \<lparr> odds = - 110, implied_prob = 11 / 21 \<rparr>)]),
          (KStr ''B'', [(KStr ''Over'', \<lparr> odds = 120, implied_prob = 5 / 11 \<rparr>)])]"
        "JNull" "\<lparr> game_id = JNull, home_team = JNull, away_team = JNull, commence_time = JNull, books = [] \<rparr>"]
  by (simp add: offers_def american_odds_def odds_to_probability_def best_prop_side_def better_price_def)

subsection \<open>Fetch client\<close>
















lemma resolve_nba: "resolve_sport_key ''nba'' = ''basketball_nba''"
  by (simp add: resolve_sport_key_def SPORT_KEY_ALIASES_def)


text \<open>
  The claim C6 as stated fails on its second half: a 429 answer to the games fetch is
  raised at once, with one request sent and no wait, although the next answer would
  have succeeded.
\<close>

theorem fetch_upcoming_games_429_counterexample:
  "fetch_upcoming_games
     (\<lambda>n. if n = 0 then Responded \<lparr> status_code = 429, retry_after = Some ''1'', body = None \<rparr>
          else Responded \<lparr> status_code = 200, retry_after = None, body = Some (JArr []) \<rparr>)
     ''nba'' \<lparr> sent = [], slept = [] \<rparr> =
   (Inl (HTTPError (Some \<lparr> status_code = 429, retry_after = Some ''1'', body = None \<rparr>)),
    \<lparr> sent = [(''/sports/basketball_nba/odds'', [''h2h''])], slept = [] \<rparr>)"
  by (simp add: fetch_upcoming_games_def request_def resolve_nba)

text \<open>
  Claim C6, amended. The games fetch fails at once on every error status (400 to 599),
  429 included: the error is raised to the caller, and in every case exactly one request
  is sent and nothing is slept, so no retry takes place.
\<close>

theorem fetch_upcoming_games_fails_immediately:
  "(server (length (sent w)) = Responded r \<and> 400 \<le> status_code r \<and> status_code r < 600 \<longrightarrow>
      fetch_upcoming_games server sport_key w =
        (Inl (HTTPError (Some r)),
         w\<lparr>sent := sent w @ [(''/sports/'' @ resolve_sport_key sport_key @ ''/odds'', [''h2h''])]\<rparr>)) \<and>
   slept (snd (fetch_upcoming_games server sport_key w)) = slept w \<and>
   sent (snd (fetch_upcoming_games server sport_key w)) =
     sent w @ [(''/sports/'' @ resolve_sport_key sport_key @ ''/odds'', [''h2h''])]"
  by (auto simp: fetch_upcoming_games_def request_def Let_def split: http_outcome.splits option.splits)

theorem fetch_upcoming_games_fails_immediately_witness:
  "fetch_upcoming_games (\<lambda>n. Responded \<lparr> status_code = 503, retry_after = None, body = None \<rparr>)
     ''nba'' \<lparr> sent = [], slept = [] \<rparr> =
   (Inl (HTTPError (Some \<lparr> status_code = 503, retry_after = None, body = None \<rparr>)),
    \<lparr> sent = [(''/sports/basketball_nba/odds'', [''h2h''])], slept = [] \<rparr>)"
  using fetch_upcoming_games_fails_immediately
    [where w = "\<lparr> sent = [], slept = [] \<rparr>" and sport_key = "''nba''"
       and r = "\<lparr> status_code = 503, retry_after = None, body = None \<rparr>"
       and server = "\<lambda>n. Responded \<lparr> status_code = 503, retry_after = None, body = None \<rparr>"]
  by (simp add: resolve_nba)

subsection \<open>Detection\<close>










subsection \<open>Normaliser: skipping malformed records\<close>




lemma py_get_set_field_other:
  "k \<noteq> k' \<Longrightarrow> py_get (set_field k' v obj) k d = py_get obj k d"
  by (cases obj) (simp_all add: update_conv')



lemma is_obj_set_field [simp]: "is_obj (set_field k v obj) = is_obj obj"
  by (cases obj) simp_all








lemma get_items_set_field_other:
  "k \<noteq> k' \<Longrightarrow> get_items (set_field k' v obj) k = get_items obj k"
  by (simp add: get_items_def py_get_set_field_other)




lemma h2h_bookmaker_step_teams:
  "h2h_bookmaker_step bookmaker game_books =
     and_then (bookmaker_name bookmaker) (\<lambda>book_name.
     if \<not> py_truthy book_name then Inr game_books
     else
       and_then (get_items bookmaker ''markets'') (\<lambda>ms.
       and_then (h2h_teams ms) (\<lambda>found.
       case found of
         None \<Rightarrow> Inr game_books
       | Some teams \<Rightarrow>
           if teams = [] then Inr game_books
           else and_then (hashed book_name) (\<lambda>b. Inr (AList.update b teams game_books)))))"
  unfolding h2h_bookmaker_step_def h2h_teams_def
  by (auto simp: and_then_def split: sum.splits option.splits)

















subsection \<open>Normaliser: totality of the moneyline normalisation\<close>

lemma for_each_total:
  assumes "\<forall>x\<in>set xs. \<forall>s. \<exists>s'. step x s = Inr s'"
  shows "\<exists>s'. for_each step xs s = Inr s'"
  using assms
proof (induction xs arbitrary: s)
  case Nil
  show ?case by simp
next
  case (Cons x xs)
  then obtain s1 where "step x s = Inr s1" by force
  with Cons show ?case by simp
qed

lemma for_each_raises:
  assumes "x \<in> set xs" "\<And>s. \<exists>e. step x s = Inl e"
  shows "\<exists>e. for_each step xs s = Inl e"
  using assms(1)
proof (induction xs arbitrary: s)
  case Nil
  then show ?case by simp
next
  case (Cons y ys)
  show ?case
  proof (cases "step y s")
    case (Inl e)
    then show ?thesis by simp
  next
    case (Inr s1)
    show ?thesis
    proof (cases "x = y")
      case True
      with Inr assms(2) [of s] show ?thesis by simp
    next
      case False
      with Cons have "\<exists>e. for_each step ys s1 = Inl e" by simp
      with Inr show ?thesis by simp
    qed
  qed
qed

lemma items_well_typedD:
  assumes "items_well_typed P obj k"
  shows "\<exists>xs. get_items obj k = Inr xs \<and> list_all P xs"
  using assms
  by (auto simp: items_well_typed_def get_items_def split: sum.splits json.splits)

lemma h2h_outcome_total:
  assumes "outcome_well_typed outcome"
  shows "\<exists>teams'. h2h_outcome_step outcome teams = Inr teams'"
  using assms
  by (auto simp: outcome_well_typed_def h2h_outcome_step_def price_of_def hashed_def
      split: sum.splits option.splits)

lemma h2h_teams_total:
  assumes "list_all market_well_typed ms"
  shows "\<exists>found. h2h_teams ms = Inr found"
  using assms
proof (induction ms)
  case Nil
  show ?case by (simp add: h2h_teams_def)
next
  case (Cons m ms)
  from Cons.prems obtain k where k: "py_get m ''key'' JNull = Inr k"
    by (auto simp: market_well_typed_def split: sum.splits)
  show ?case
  proof (cases "k = JStr ''h2h''")
    case True
    with Cons.prems k have "items_well_typed outcome_well_typed m ''outcomes''"
      by (simp add: market_well_typed_def)
    then obtain os where os: "get_items m ''outcomes'' = Inr os" "list_all outcome_well_typed os"
      using items_well_typedD by blast
    then have "\<exists>teams. for_each h2h_outcome_step os [] = Inr teams"
      by (intro for_each_total) (auto simp: list_all_iff h2h_outcome_total)
    then show ?thesis using True k os(1) by (auto simp: h2h_teams_def)
  next
    case False
    with Cons k show ?thesis by (simp add: h2h_teams_def)
  qed
qed

lemma h2h_bookmaker_total:
  assumes "bookmaker_well_typed bookmaker"
  shows "\<exists>books'. h2h_bookmaker_step bookmaker game_books = Inr books'"
proof -
  from assms obtain n where n: "bookmaker_name bookmaker = Inr n"
    by (auto simp: bookmaker_well_typed_def split: sum.splits)
  show ?thesis
  proof (cases "py_truthy n")
    case False
    then show ?thesis by (simp add: h2h_bookmaker_step_teams n)
  next
    case True
    with assms n obtain b where b: "py_hash_key n = Some b"
      and "items_well_typed market_well_typed bookmaker ''markets''"
      by (auto simp: bookmaker_well_typed_def)
    then obtain ms where ms: "get_items bookmaker ''markets'' = Inr ms" "list_all market_well_typed ms"
      using items_well_typedD by blast
    obtain found where f: "h2h_teams ms = Inr found" using h2h_teams_total [OF ms(2)] by blast
    show ?thesis
      by (cases found) (simp_all add: h2h_bookmaker_step_teams n True ms(1) f b)
  qed
qed

lemma normalize_game_total:
  assumes "game_well_typed game"
  shows "\<exists>k gd. game_id_key game = Some k \<and> normalize_game game normalized = Inr (AList.update k gd normalized)"
proof -
  from assms obtain k where k: "game_id_key game = Some k" by (auto simp: game_well_typed_def)
  then obtain gid where gid: "py_getitem game ''id'' = Inr gid" "py_hash_key gid = Some k"
    by (auto simp: game_id_key_def split: sum.splits)
  then obtain kvs where g: "game = JObj kvs" by (cases game) auto
  from assms obtain home away where
    ha: "py_getitem game ''home_team'' = Inr home" "py_getitem game ''away_team'' = Inr away"
    by (auto simp: game_well_typed_def lacks_required_field_def g split: option.splits)
  obtain ct where ct: "py_get game ''commence_time'' JNull = Inr ct"
    by (cases "map_of kvs ''commence_time''") (auto simp: g)
  from assms have "items_well_typed bookmaker_well_typed game ''bookmakers''"
    by (simp add: game_well_typed_def)
  then obtain bl where bl: "get_items game ''bookmakers'' = Inr bl" "list_all bookmaker_well_typed bl"
    using items_well_typedD by blast
  then have "\<exists>gb. for_each h2h_bookmaker_step bl [] = Inr gb"
    by (intro for_each_total) (auto simp: list_all_iff h2h_bookmaker_total)
  then obtain gb where gb: "for_each h2h_bookmaker_step bl [] = Inr gb" by blast
  have "normalize_game game normalized =
      Inr (AList.update k \<lparr> game_id = gid, home_team = home, away_team = away,
             commence_time = ct, books = gb \<rparr> normalized)"
    by (simp add: normalize_game_def gid ha ct bl(1) gb)
  with k show ?thesis by blast
qed

lemma missing_field_raises: "lacks_required_field game \<Longrightarrow> \<exists>e. normalize_game game normalized = Inl e"
  by (cases "py_getitem game ''id''"; cases "py_getitem game ''home_team''")
     (auto simp: lacks_required_field_def normalize_game_def)

lemma normalize_loop:
  assumes "list_all game_well_typed games"
  shows "\<exists>out. for_each normalize_game games normalized = Inr out \<and>
           set (map fst out) = set (map fst normalized) \<union> set (List.map_filter game_id_key games) \<and>
           (distinct (map fst normalized) \<longrightarrow> distinct (map fst out))"
  using assms
proof (induction games arbitrary: normalized)
  case Nil
  show ?case by simp
next
  case (Cons g games)
  from Cons.prems obtain k gd where
    k: "game_id_key g = Some k" "normalize_game g normalized = Inr (AList.update k gd normalized)"
    using normalize_game_total [of g normalized] by auto
  from Cons.prems have "list_all game_well_typed games" by simp
  from Cons.IH [OF this, of "AList.update k gd normalized"] obtain out where
    out: "for_each normalize_game games (AList.update k gd normalized) = Inr out"
      "set (map fst out) = set (map fst (AList.update k gd normalized)) \<union> set (List.map_filter game_id_key games)"
      "distinct (map fst (AList.update k gd normalized)) \<longrightarrow> distinct (map fst out)"
    by blast
  have keys: "set (map fst (AList.update k gd normalized)) = insert k (set (map fst normalized))"
    using dom_update [of k gd normalized] by simp
  show ?case
    using k out keys by (auto simp: distinct_update)
qed

text \<open>
  Claim C10, amended. If any game of the input list lacks \<open>id\<close>, \<open>home_team\<close> or \<open>away_team\<close>
  the moneyline normaliser raises and returns nothing for any game. If every game has
  the three fields and the nested data is well typed, it does not raise, and the keys of
  its output are distinct and are exactly the ids of the input games, whether or not a
  game has a usable bookmaker.
\<close>

theorem moneyline_normalisation_total:
  "(game \<in> set games \<and> lacks_required_field game \<longrightarrow>
      (\<exists>e. normalize_moneyline_odds (JArr games) = Inl e)) \<and>
   (list_all game_well_typed games \<longrightarrow>
      (\<exists>out. normalize_moneyline_odds (JArr games) = Inr out \<and>
         distinct (map fst out) \<and>
         set (map fst out) = set (List.map_filter game_id_key games)))"
proof (intro conjI impI)
  assume "game \<in> set games \<and> lacks_required_field game"
  then show "\<exists>e. normalize_moneyline_odds (JArr games) = Inl e"
    using for_each_raises [of game games normalize_game "[]"] missing_field_raises [of game]
    by (simp add: normalize_moneyline_odds_def)
next
  assume "list_all game_well_typed games"
  from normalize_loop [OF this, of "[]"]
  show "\<exists>out. normalize_moneyline_odds (JArr games) = Inr out \<and>
         distinct (map fst out) \<and>
         set (map fst out) = set (List.map_filter game_id_key games)"
    by (auto simp: normalize_moneyline_odds_def)
qed


text \<open>
  The claim C10 as stated fails on its second part: games that have \<open>id\<close>, \<open>home_team\<close> and
  \<open>away_team\<close> still make the normaliser raise, and lose the well-formed sibling, when
  \<open>bookmakers\<close> is null or when an outcome carries its price as a string.
\<close>

theorem moneyline_nested_shape_counterexample:
  "\<not> lacks_required_field (sample_game ''g2'' JNull) \<and>
   normalize_moneyline_odds
     (JArr [sample_game ''g1'' (JArr [sample_bookmaker ''A'' [sample_market ''h2h'' [sample_outcome ''X'' (JInt 120)]]]),
            sample_game ''g2'' JNull]) = Inl TypeError \<and>
   \<not> lacks_required_field
       (sample_game ''g2'' (JArr [sample_bookmaker ''A'' [sample_market ''h2h'' [sample_outcome ''X'' (JStr ''+120'')]]])) \<and>
   normalize_moneyline_odds
     (JArr [sample_game ''g1'' (JArr [sample_bookmaker ''A'' [sample_market ''h2h'' [sample_outcome ''X'' (JInt 120)]]]),
            sample_game ''g2'' (JArr [sample_bookmaker ''A'' [sample_market ''h2h'' [sample_outcome ''X'' (JStr ''+120'')]]])]) = Inl TypeError"
  by (simp add: lacks_required_field_def normalize_moneyline_odds_def normalize_game_def
        get_items_def h2h_bookmaker_step_def bookmaker_name_def h2h_outcome_step_def
        price_of_def hashed_def odds_to_probability_def
        sample_outcome_def sample_market_def sample_bookmaker_def sample_game_def)

theorem moneyline_normalisation_total_witness:
  "(\<exists>e. normalize_moneyline_odds
      (JArr [sample_game ''g1'' (JArr [sample_bookmaker ''A'' [sample_market ''h2h'' [sample_outcome ''X'' (JInt 120)]]]),
             JObj [(''id'', JStr ''g3''), (''home_team'', JStr ''X'')]]) = Inl e) \<and>
   (\<exists>out. normalize_moneyline_odds
      (JArr [sample_game ''g1'' (JArr [sample_bookmaker ''A'' [sample_market ''h2h'' [sample_outcome ''X'' (JInt 120)]]]),
             sample_game ''g0'' (JArr []),
             sample_game ''g1'' (JArr [sample_bookmaker ''A'' [sample_market ''h2h'' [sample_outcome ''X'' (JInt 120)]]])]) = Inr out \<and>
      distinct (map fst out) \<and> set (map fst out) = {KStr ''g1'', KStr ''g0''})"
proof
  show "\<exists>e. normalize_moneyline_odds
      (JArr [sample_game ''g1'' (JArr [sample_bookmaker ''A'' [sample_market ''h2h'' [sample_outcome ''X'' (JInt 120)]]]),
             JObj [(''id'', JStr ''g3''), (''home_team'', JStr ''X'')]]) = Inl e"
    using moneyline_normalisation_total
      [where game = "JObj [(''id'', JStr ''g3''), (''home_team'', JStr ''X'')]"
         and games = "[sample_game ''g1'' (JArr [sample_bookmaker ''A'' [sample_market ''h2h'' [sample_outcome ''X'' (JInt 120)]]]),
             JObj [(''id'', JStr ''g3''), (''home_team'', JStr ''X'')]]"]
    by (simp add: lacks_required_field_def)
  show "\<exists>out. normalize_moneyline_odds
      (JArr [sample_game ''g1'' (JArr [sample_bookmaker ''A'' [sample_market ''h2h'' [sample_outcome ''X'' (JInt 120)]]]),
             sample_game ''g0'' (JArr []),
             sample_game ''g1'' (JArr [sample_bookmaker ''A'' [sample_market ''h2h'' [sample_outcome ''X'' (JInt 120)]]])]) = Inr out \<and>
      distinct (map fst out) \<and> set (map fst out) = {KStr ''g1'', KStr ''g0''}"
    using moneyline_normalisation_total
      [where game = JNull
         and games = "[sample_game ''g1'' (JArr [sample_bookmaker ''A'' [sample_market ''h2h'' [sample_outcome ''X'' (JInt 120)]]]),
             sample_game ''g0'' (JArr []),
             sample_game ''g1'' (JArr [sample_bookmaker ''A'' [sample_market ''h2h'' [sample_outcome ''X'' (JInt 120)]]])]"]
    by (auto simp: lacks_required_field_def game_well_typed_def game_id_key_def items_well_typed_def
        bookmaker_well_typed_def bookmaker_name_def market_well_typed_def outcome_well_typed_def
        sample_outcome_def sample_market_def sample_bookmaker_def sample_game_def)
qed

end
